theory Spec2Isabelle
  imports Main
begin

section \<open>Text\<close>

text \<open>
  A Python text is modelled as the list of its code points, each below 256
  (\<^typ>\<open>string\<close>); a file holds a list of bytes, also a \<^typ>\<open>string\<close>.
\<close>

abbreviation NL :: char where
  "NL \<equiv> CHR 0x0A"

abbreviation DQ :: char where
  "DQ \<equiv> CHR 0x22"

text \<open>
  \<^verbatim>\<open>str.isspace\<close> on a code point below 256: the ASCII controls 9 to 13 and 28 to 31,
  the space, NEL (0x85) and the no-break space (0xA0).
\<close>

definition is_space :: "char \<Rightarrow> bool" where
  "is_space c = (of_char c \<in> {9, 10, 11, 12, 13, 28, 29, 30, 31, 32, 133, 160 :: nat})"

text \<open>\<^verbatim>\<open>s.rstrip()\<close> and \<^verbatim>\<open>s.strip()\<close> with no argument.\<close>

definition rstrip :: "string \<Rightarrow> string" where
  "rstrip s = rev (dropWhile is_space (rev s))"

definition strip :: "string \<Rightarrow> string" where
  "strip s = dropWhile is_space (rstrip s)"

text \<open>\<^verbatim>\<open>sep.join(xs)\<close>.\<close>

fun join :: "string \<Rightarrow> string list \<Rightarrow> string" where
  "join sep [] = []"
| "join sep [x] = x"
| "join sep (x # y # ys) = x @ sep @ join sep (y # ys)"

text \<open>\<^verbatim>\<open>s.split(sep)\<close> for a separator of one character; the result is never empty.\<close>

fun split_on :: "char \<Rightarrow> string \<Rightarrow> string list" where
  "split_on sep [] = [[]]"
| "split_on sep (c # cs) =
     (if c = sep then [] # split_on sep cs
      else (case split_on sep cs of [] \<Rightarrow> [[c]] | x # xs \<Rightarrow> (c # x) # xs))"

section \<open>Pure POSIX paths\<close>

text \<open>
  \<^verbatim>\<open>pathlib.PurePosixPath\<close>: a path is its root (empty, one slash or two slashes) and
  the names after it. The names of the model leave the root out, where
  \<^verbatim>\<open>PurePath.parts\<close> has it as its first element. Nothing here reads a file system.
\<close>

record ppath =
  anchor :: string
  names :: "string list"

text \<open>\<^verbatim>\<open>_PosixFlavour.splitroot\<close>: exactly two leading slashes are kept, any other number is one.\<close>

definition splitroot :: "string \<Rightarrow> string \<times> string" where
  "splitroot part =
     (case part of
        [] \<Rightarrow> ([], part)
      | c # _ \<Rightarrow>
          if c = CHR ''/'' then
            (let stripped_part = dropWhile (\<lambda>x. x = CHR ''/'') part
             in if length part - length stripped_part = 2 then (''//'', stripped_part)
                else (''/'', stripped_part))
          else ([], part))"

text \<open>\<^verbatim>\<open>pathlib.Path(s)\<close>: empty names and the name \<^verbatim>\<open>.\<close> are dropped, \<^verbatim>\<open>..\<close> is kept.\<close>

definition Path :: "string \<Rightarrow> ppath" where
  "Path s =
     (let (r, rel) = splitroot s
      in \<lparr>anchor = r, names = filter (\<lambda>x. x \<noteq> [] \<and> x \<noteq> ''.'') (split_on CHR ''/'' rel)\<rparr>)"

text \<open>\<^verbatim>\<open>p / s\<close>: an absolute right operand replaces the left one.\<close>

definition joinpath :: "ppath \<Rightarrow> string \<Rightarrow> ppath" where
  "joinpath p s =
     (let q = Path s
      in if anchor q \<noteq> [] then q else \<lparr>anchor = anchor p, names = names p @ names q\<rparr>)"

text \<open>\<^verbatim>\<open>str(p)\<close>.\<close>

definition str_path :: "ppath \<Rightarrow> string" where
  "str_path p =
     (if anchor p = [] \<and> names p = [] then ''.'' else anchor p @ join ''/'' (names p))"

text \<open>\<^verbatim>\<open>p.parent\<close>: the path without its last name; a path with no name is its own parent.\<close>

definition parent :: "ppath \<Rightarrow> ppath" where
  "parent p = (if names p = [] then p else p\<lparr>names := butlast (names p)\<rparr>)"

section \<open>Path resolver\<close>

text \<open>
  \<^verbatim>\<open>build_filename(working_directory, tag_name, extension='.in', prefix='src')\<close>.
  The defaults are written out by the callers of the model.
\<close>

definition build_filename :: "string \<Rightarrow> string \<Rightarrow> string \<Rightarrow> string \<Rightarrow> ppath" where
  "build_filename working_directory tag_name extension prefix =
     (let wd = joinpath (Path working_directory) prefix
      in joinpath wd (tag_name @ extension))"

section \<open>Errors\<close>

text \<open>
  The \<^verbatim>\<open>OSError\<close> subclasses the file-system primitives of the model raise.
\<close>

datatype os_error =
  FileExistsError | FileNotFoundError | NotADirectoryError | IsADirectoryError | PermissionError

text \<open>
  Every exception of the program is a value. \<open>IndexUrlMismatchError\<close> carries the message
  the program builds; \<open>Raised\<close> is any exception a collaborator raises under a name of its own;
  \<open>Unmodelled\<close> marks a replacement field of \<^verbatim>\<open>str.format\<close> that is outside the model
  (a conversion, a format specification, an attribute or an index).
\<close>

datatype error =
  OSError os_error
  | IndexUrlMismatchError string
  | ValueError
  | KeyError string
  | IndexError
  | Raised string
  | Unmodelled

section \<open>Header formatter\<close>

text \<open>
  A point in time is modelled by what \<^verbatim>\<open>strftime\<close> renders for each conversion character
  at that time and in the locale of the process: \<open>rendering t CHR ''c''\<close> is what
  \<^verbatim>\<open>%c\<close> gives.
\<close>

datatype datetime = Datetime (rendering: "char \<Rightarrow> string")

text \<open>
  \<^verbatim>\<open>timestamp.strftime(format_string)\<close>: \<^verbatim>\<open>%%\<close> is a percent sign, \<^verbatim>\<open>%x\<close> is the
  rendering of \<^verbatim>\<open>x\<close>, a percent sign at the very end stays.
\<close>

fun strftime :: "datetime \<Rightarrow> string \<Rightarrow> string" where
  "strftime t [] = []"
| "strftime t [c] = [c]"
| "strftime t (c # d # cs) =
     (if c = CHR ''%'' then (if d = CHR ''%'' then ''%'' else rendering t d) @ strftime t cs
      else c # strftime t (d # cs))"

text \<open>
  \<^verbatim>\<open>s.format(**kw)\<close>, with keyword arguments only. A field with an empty or numeric name
  asks for a positional argument, and there is none.
\<close>

definition get_field :: "(string \<rightharpoonup> string) \<Rightarrow> string \<Rightarrow> error + string" where
  "get_field kw field_name =
     (if \<exists>c \<in> set field_name. c \<in> set ''.[!:{'' then Inl Unmodelled
      else if \<forall>c \<in> set field_name. c \<in> set ''0123456789'' then Inl IndexError
      else (case kw field_name of None \<Rightarrow> Inl (KeyError field_name) | Some v \<Rightarrow> Inr v))"

definition prepend :: "string \<Rightarrow> error + string \<Rightarrow> error + string" where
  "prepend v r = (case r of Inl e \<Rightarrow> Inl e | Inr s \<Rightarrow> Inr (v @ s))"

text \<open>
  The scanner reads the format string from the left. Its second argument is \<open>None\<close> in literal
  text and \<open>Some n\<close> inside a replacement field whose name so far is \<open>n\<close>. A doubled brace is a
  literal brace; a single closing brace in literal text and a field left open are
  \<^verbatim>\<open>ValueError\<close>s.
\<close>

fun format_scan :: "(string \<rightharpoonup> string) \<Rightarrow> string option \<Rightarrow> string \<Rightarrow> error + string" where
  "format_scan kw None [] = Inr []"
| "format_scan kw (Some n) [] = Inl ValueError"
| "format_scan kw None (c # cs) =
     (if c = CHR ''{'' then
        (case cs of
           [] \<Rightarrow> Inl ValueError
         | d # ds \<Rightarrow> if d = CHR ''{'' then prepend ''{'' (format_scan kw None ds)
                    else format_scan kw (Some []) cs)
      else if c = CHR ''}'' then
        (case cs of
           [] \<Rightarrow> Inl ValueError
         | d # ds \<Rightarrow> if d = CHR ''}'' then prepend ''}'' (format_scan kw None ds)
                    else Inl ValueError)
      else prepend [c] (format_scan kw None cs))"
| "format_scan kw (Some n) (c # cs) =
     (if c = CHR ''}'' then
        (case get_field kw n of
           Inl e \<Rightarrow> Inl e
         | Inr v \<Rightarrow> prepend v (format_scan kw None cs))
      else format_scan kw (Some (n @ [c])) cs)"

definition format_str :: "string \<Rightarrow> (string \<rightharpoonup> string) \<Rightarrow> error + string" where
  "format_str s kw = format_scan kw None s"

definition MODELINES_HEADER :: string where
  "MODELINES_HEADER =
     ''# -*- mode: requirementstxt -*-'' @ [NL] @
     ''# vim: set ft=requirements'' @ [NL]"

text \<open>
  In the source a backslash ends each of the four placeholder lines but the last, so the
  placeholders follow each other with no line break between them.
\<close>

definition DEFAULT_HEADER :: string where
  "DEFAULT_HEADER =
     MODELINES_HEADER @
     ''# Generated by reqwire on %c'' @ [NL] @
     ''{nested_cfiles}{nested_rfiles}{index_url}{extra_index_urls}'' @ [NL]"

text \<open>The loop over the components: a component that is not empty gets one line break.\<close>

definition terminate_component :: "string \<Rightarrow> string" where
  "terminate_component c = (if c \<noteq> [] then c @ [NL] else c)"

text \<open>
  \<^verbatim>\<open>build_source_header(format_string, index_url, extra_index_urls, nested_cfiles,
  nested_rfiles, timestamp)\<close>. The first argument of the model is the clock, read when no
  timestamp is given. A collection is the list of its elements in iteration order.
\<close>

definition build_source_header ::
  "datetime \<Rightarrow> string option \<Rightarrow> string option \<Rightarrow> string list option \<Rightarrow>
   string list option \<Rightarrow> string list option \<Rightarrow> datetime option \<Rightarrow> error + string" where
  "build_source_header now format_string index_url_arg extra_index_urls_arg
       nested_cfiles_arg nested_rfiles_arg timestamp =
     (let fmt = (case format_string of None \<Rightarrow> DEFAULT_HEADER | Some f \<Rightarrow> f);
          ts = (case timestamp of None \<Rightarrow> now | Some t \<Rightarrow> t);
          c_cfiles = (case nested_cfiles_arg of None \<Rightarrow> []
                      | Some xs \<Rightarrow> join [NL] (map (\<lambda>rfile. ''-c '' @ rfile) xs));
          c_rfiles = (case nested_rfiles_arg of None \<Rightarrow> []
                      | Some xs \<Rightarrow> join [NL] (map (\<lambda>rfile. ''-r '' @ rfile) xs));
          c_index = (case index_url_arg of None \<Rightarrow> []
                     | Some u \<Rightarrow> join '' '' [''--index-url'', strip u]);
          c_extra = (case extra_index_urls_arg of None \<Rightarrow> []
                     | Some xs \<Rightarrow>
                         join [NL] (map (\<lambda>extra_index_url.
                           join '' '' [''--extra-index-url'', extra_index_url]) xs));
          components =
            [''nested_cfiles'' \<mapsto> terminate_component c_cfiles,
             ''nested_rfiles'' \<mapsto> terminate_component c_rfiles,
             ''index_url'' \<mapsto> terminate_component c_index,
             ''extra_index_urls'' \<mapsto> terminate_component c_extra]
      in case format_str (strftime ts fmt) components of
           Inl e \<Rightarrow> Inl e
         | Inr s \<Rightarrow> Inr (strip s @ [NL]))"

section \<open>File system\<close>

text \<open>
  The file system is a map from path strings, as \<^verbatim>\<open>str(path)\<close> gives them, to nodes. A
  file has its bytes; the flag of a node says whether the process may write it (for a
  directory: create entries in it). The process owns what it creates and is not
  privileged, so a new node is writable when the owner bits of its mode say so; the
  umask, symbolic links, \<^verbatim>\<open>..\<close> and time stamps are outside the model.
\<close>

datatype node = File bool string | Dir bool

type_synonym filesystem = "string \<Rightarrow> node option"

definition owner_writable :: "nat \<Rightarrow> bool" where
  "owner_writable mode = odd (mode div 128)"

definition owner_searchable :: "nat \<Rightarrow> bool" where
  "owner_searchable mode = odd (mode div 64)"

definition dirname :: "string \<Rightarrow> string" where
  "dirname s = str_path (parent (Path s))"

text \<open>A new entry needs its parent directory, writable.\<close>

definition create_entry :: "string \<Rightarrow> node \<Rightarrow> filesystem \<Rightarrow> (os_error + unit) \<times> filesystem" where
  "create_entry s n fs =
     (case fs (dirname s) of
        None \<Rightarrow> (Inl FileNotFoundError, fs)
      | Some (File w c) \<Rightarrow> (Inl NotADirectoryError, fs)
      | Some (Dir w) \<Rightarrow> if w then (Inr (), fs(s \<mapsto> n)) else (Inl PermissionError, fs))"

text \<open>\<^verbatim>\<open>os.mkdir(s, mode)\<close>.\<close>

definition os_mkdir :: "string \<Rightarrow> nat \<Rightarrow> filesystem \<Rightarrow> (os_error + unit) \<times> filesystem" where
  "os_mkdir s mode fs =
     (case fs s of
        Some n \<Rightarrow> (Inl FileExistsError, fs)
      | None \<Rightarrow> create_entry s (Dir (owner_writable mode \<and> owner_searchable mode)) fs)"

text \<open>\<^verbatim>\<open>Path.exists()\<close> and \<^verbatim>\<open>Path.is_dir()\<close>.\<close>

definition Path_exists :: "ppath \<Rightarrow> filesystem \<Rightarrow> bool" where
  "Path_exists p fs = (fs (str_path p) \<noteq> None)"

definition Path_is_dir :: "ppath \<Rightarrow> filesystem \<Rightarrow> bool" where
  "Path_is_dir p fs = (case fs (str_path p) of Some (Dir w) \<Rightarrow> True | _ \<Rightarrow> False)"

text \<open>
  \<^verbatim>\<open>Path.mkdir(mode, parents, exist_ok)\<close>: when a parent is missing and \<open>parents\<close> is set,
  the parents are made first, with mode \<^verbatim>\<open>0o777\<close> (511), and the directory is tried once
  more; any other \<^verbatim>\<open>OSError\<close> is kept unless \<open>exist_ok\<close> is set and the path is a directory.
\<close>

function Path_mkdir ::
  "ppath \<Rightarrow> nat \<Rightarrow> bool \<Rightarrow> bool \<Rightarrow> filesystem \<Rightarrow> (os_error + unit) \<times> filesystem" where
  "Path_mkdir p mode parents exist_ok fs =
     (case os_mkdir (str_path p) mode fs of
        (Inr u, fs1) \<Rightarrow> (Inr (), fs1)
      | (Inl e, fs1) \<Rightarrow>
          if e = FileNotFoundError then
            (if \<not> parents \<or> parent p = p then (Inl e, fs1)
             else (case Path_mkdir (parent p) 511 True True fs1 of
                     (Inl e2, fs2) \<Rightarrow> (Inl e2, fs2)
                   | (Inr u, fs2) \<Rightarrow> Path_mkdir p mode False exist_ok fs2))
          else if \<not> exist_ok \<or> \<not> Path_is_dir p fs1 then (Inl e, fs1)
          else (Inr (), fs1))"
  by pat_completeness auto
termination
  by (relation "measure (\<lambda>(p, mode, parents, exist_ok, fs).
        2 * length (names p) + (if parents then 1 else 0))")
     (auto simp: parent_def split: if_splits)

declare Path_mkdir.simps [simp del]

text \<open>
  \<^verbatim>\<open>Path.touch(mode)\<close>, whose \<^verbatim>\<open>exist_ok\<close> defaults to true: on an existing path it only
  sets the modification time and returns; otherwise it creates an empty file.
\<close>

definition Path_touch :: "ppath \<Rightarrow> nat \<Rightarrow> filesystem \<Rightarrow> (os_error + unit) \<times> filesystem" where
  "Path_touch p mode fs =
     (case fs (str_path p) of
        Some n \<Rightarrow> (Inr (), fs)
      | None \<Rightarrow> create_entry (str_path p) (File (owner_writable mode) []) fs)"

text \<open>
  \<^verbatim>\<open>io.open(s, 'wb', encoding=encoding, errors=errors)\<close>: binary mode takes neither an
  encoding nor an error handler; an existing file is truncated, a missing one is created
  (with mode \<^verbatim>\<open>0o666\<close>).
\<close>

definition io_open_wb ::
  "string \<Rightarrow> string option \<Rightarrow> string option \<Rightarrow> filesystem \<Rightarrow> (error + unit) \<times> filesystem" where
  "io_open_wb s encoding errors fs =
     (if encoding \<noteq> None then (Inl ValueError, fs)
      else if errors \<noteq> None then (Inl ValueError, fs)
      else (case fs s of
              Some (File w c) \<Rightarrow>
                if w then (Inr (), fs(s \<mapsto> File w [])) else (Inl (OSError PermissionError), fs)
            | Some (Dir w) \<Rightarrow> (Inl (OSError IsADirectoryError), fs)
            | None \<Rightarrow>
                (case create_entry s (File True []) fs of
                   (Inl e, fs1) \<Rightarrow> (Inl (OSError e), fs1)
                 | (Inr u, fs1) \<Rightarrow> (Inr (), fs1))))"

text \<open>\<^verbatim>\<open>f.write(data)\<close> on the file opened at \<open>s\<close>, and the close that follows.\<close>

definition file_write :: "string \<Rightarrow> string \<Rightarrow> filesystem \<Rightarrow> filesystem" where
  "file_write s data fs =
     (case fs s of Some (File w c) \<Rightarrow> fs(s \<mapsto> File w (c @ data)) | _ \<Rightarrow> fs)"

text \<open>\<^verbatim>\<open>s.encode('utf-8')\<close> for code points below 256.\<close>

definition encode_utf8 :: "string \<Rightarrow> string" where
  "encode_utf8 s =
     concat (map (\<lambda>c. let n = (of_char c :: nat)
                      in if n < 128 then [c]
                         else [char_of (192 + n div 64), char_of (128 + n mod 64)]) s)"

section \<open>Directory and file initializer\<close>

text \<open>
  \<^verbatim>\<open>init_source_dir(working_directory, mode=0o777, create_parents=True, exist_ok=False,
  name='src')\<close>. A function that touches the file system returns its result, or the
  exception it raises, together with the file system it leaves.
\<close>

definition init_source_dir ::
  "string \<Rightarrow> nat \<Rightarrow> bool \<Rightarrow> bool \<Rightarrow> string \<Rightarrow> filesystem \<Rightarrow> (error + ppath) \<times> filesystem" where
  "init_source_dir working_directory mode create_parents exist_ok name fs =
     (let wd = Path working_directory;
          src = joinpath wd name
      in case Path_mkdir src mode create_parents False fs of
           (Inl e, fs1) \<Rightarrow> if \<not> exist_ok then (Inl (OSError e), fs1) else (Inr src, fs1)
         | (Inr u, fs1) \<Rightarrow> (Inr src, fs1))"

text \<open>
  \<^verbatim>\<open>init_source_file(working_directory, tag_name, extension, index_url, extra_index_urls,
  encoding, errors, mode, overwrite)\<close>; the first argument of the model is the clock. The
  file is opened, and so truncated, before the header is rendered.
\<close>

definition init_source_file ::
  "datetime \<Rightarrow> string \<Rightarrow> string \<Rightarrow> string \<Rightarrow> string option \<Rightarrow> string list option \<Rightarrow>
   string option \<Rightarrow> string option \<Rightarrow> nat \<Rightarrow> bool \<Rightarrow> filesystem \<Rightarrow>
   (error + ppath) \<times> filesystem" where
  "init_source_file now working_directory tag_name extension index_url_arg extra_index_urls_arg
       encoding errors mode overwrite fs =
     (let filename = build_filename working_directory tag_name extension ''src'';
          (touched, fs1) = Path_touch filename mode fs
      in if isl touched \<and> \<not> overwrite then (Inl (OSError (projl touched)), fs1)
         else
           (case io_open_wb (str_path filename) encoding errors fs1 of
              (Inl e, fs2) \<Rightarrow> (Inl e, fs2)
            | (Inr u, fs2) \<Rightarrow>
                (case build_source_header now None None None None None None of
                   Inl e \<Rightarrow> (Inl e, fs2)
                 | Inr header \<Rightarrow>
                     (Inr filename, file_write (str_path filename) (encode_utf8 header) fs2))))"

section \<open>Ordered sets\<close>

text \<open>
  \<^verbatim>\<open>ordered_set.OrderedSet\<close>: a list without repetition, in insertion order.
  \<open>os_add\<close> is \<^verbatim>\<open>add\<close>, \<open>os_update\<close> is \<^verbatim>\<open>a |= b\<close>, \<open>OrderedSet\<close> is the constructor.
\<close>

definition os_add :: "'a list \<Rightarrow> 'a \<Rightarrow> 'a list" where
  "os_add xs x = (if x \<in> set xs then xs else xs @ [x])"

definition os_update :: "'a list \<Rightarrow> 'a list \<Rightarrow> 'a list" where
  "os_update xs ys = foldl os_add xs ys"

definition OrderedSet :: "'a list \<Rightarrow> 'a list" where
  "OrderedSet ys = os_update [] ys"

section \<open>Manifest model and collaborators\<close>

text \<open>
  A resolved requirement is a canonical package name with its version constraint; the
  constraint is modelled by the set of versions it admits.
\<close>

type_synonym 'v ireq = "string \<times> 'v set"

text \<open>
  What \<^verbatim>\<open>extend_source_file\<close> reads of a \<^verbatim>\<open>RequirementFile\<close>. A nested file is kept as its
  \<^verbatim>\<open>filename\<close>, the only attribute used; \<open>extra_index_urls\<close> is listed in iteration order.
\<close>

record 'v requirement_file =
  index_url :: "string option"
  extra_index_urls :: "string list"
  index_urls :: "string set"
  nested_cfiles :: "ppath list"
  nested_rfiles :: "ppath list"
  requirements :: "'v ireq set"

text \<open>
  The module \<^verbatim>\<open>reqwire.helpers.requirements\<close> is not among the sources at hand. Its four
  entry points are parameters of the model, typed after the collaborator contracts of the
  specification: loading a \<^verbatim>\<open>RequirementFile\<close> reads the file system and leaves it as it
  is, the specifier resolver and the version intersector compute sets of requirements or
  raise, and \<^verbatim>\<open>write_requirements\<close> is the one primitive that changes the file system.
\<close>

record 'v collaborators =
  RequirementFile :: "string \<Rightarrow> filesystem \<Rightarrow> error + 'v requirement_file"
  build_ireq_set ::
    "string list \<Rightarrow> string set \<Rightarrow> bool \<Rightarrow> bool \<Rightarrow> string \<Rightarrow> bool \<Rightarrow> error + 'v ireq set"
  resolve_ireqs :: "'v ireq set \<Rightarrow> bool \<Rightarrow> bool \<Rightarrow> error + 'v ireq set"
  write_requirements ::
    "string \<Rightarrow> 'v ireq set \<Rightarrow> string \<Rightarrow> filesystem \<Rightarrow> (error + unit) \<times> filesystem"

section \<open>Synchronization engine\<close>

text \<open>
  \<^verbatim>\<open>p.relative_to(other)\<close>: \<open>other\<close> must have the root of \<open>p\<close> and a prefix of its names;
  the result is relative.
\<close>

definition relative_to :: "ppath \<Rightarrow> ppath \<Rightarrow> error + ppath" where
  "relative_to p other =
     (let n = length (names other)
      in if anchor p = anchor other \<and> take n (names p) = names other
         then Inr \<lparr>anchor = [], names = drop n (names p)\<rparr>
         else Inl ValueError)"

text \<open>
  The generator \<^verbatim>\<open>str(f.filename.relative_to(base)) for f in files\<close>, consumed to its end:
  the first file outside \<open>base\<close> raises.
\<close>

fun relative_labels :: "ppath list \<Rightarrow> ppath \<Rightarrow> error + string list" where
  "relative_labels [] base = Inr []"
| "relative_labels (f # fs) base =
     (case relative_to f base of
        Inl e \<Rightarrow> Inl e
      | Inr l \<Rightarrow>
          (case relative_labels fs base of
             Inl e \<Rightarrow> Inl e
           | Inr ls \<Rightarrow> Inr (str_path l # ls)))"

text \<open>What \<^verbatim>\<open>'{}'.format(x)\<close> renders for an optional text.\<close>

definition format_value :: "string option \<Rightarrow> string" where
  "format_value x = (case x of None \<Rightarrow> ''None'' | Some a \<Rightarrow> a)"

text \<open>
  \<^verbatim>\<open>extend_source_file(working_directory, tag_name, specifiers, extension, index_url,
  extra_index_urls, lookup_index_urls, prereleases, resolve_canonical_names,
  resolve_versions)\<close>, the body under the process lock. The first two arguments of the model
  are the collaborators and the clock.
\<close>

definition extend_source_file ::
  "'v collaborators \<Rightarrow> datetime \<Rightarrow> string \<Rightarrow> string \<Rightarrow> string list \<Rightarrow> string \<Rightarrow>
   string option \<Rightarrow> string list option \<Rightarrow> string set option \<Rightarrow> bool \<Rightarrow> bool \<Rightarrow> bool \<Rightarrow>
   filesystem \<Rightarrow> (error + unit) \<times> filesystem" where
  "extend_source_file env now working_directory tag_name specifiers extension index_url_arg
       extra_index_urls_arg lookup_index_urls_arg prereleases resolve_canonical_names
       resolve_versions fs =
     (let extras0 = (case extra_index_urls_arg of None \<Rightarrow> OrderedSet []
                     | Some xs \<Rightarrow> OrderedSet xs);
          filename = build_filename working_directory tag_name extension ''src''
      in case RequirementFile env (str_path filename) fs of
           Inl e \<Rightarrow> (Inl e, fs)
         | Inr req_file \<Rightarrow>
             if Path_exists filename fs \<and> index_url_arg \<noteq> None
                \<and> index_url_arg \<noteq> index_url req_file
             then (Inl (IndexUrlMismatchError
                     ([DQ] @ format_value index_url_arg @ [DQ] @ '' != '' @ [DQ] @
                      format_value (index_url req_file) @ [DQ])), fs)
             else
               (let adopt = (Path_exists filename fs \<and> index_url_arg = None);
                    index_url1 = (if adopt then index_url req_file else index_url_arg);
                    extras1 = (if adopt then os_update extras0 (extra_index_urls req_file)
                               else extras0);
                    lookup =
                      (case lookup_index_urls_arg of
                         Some urls \<Rightarrow> urls
                       | None \<Rightarrow>
                           (let urls = (case index_url1 of None \<Rightarrow> {} | Some u \<Rightarrow> {u})
                                         \<union> set extras1
                            in if urls = {} \<and> index_urls req_file \<noteq> {}
                               then urls \<union> index_urls req_file else urls))
                in case build_ireq_set env specifiers lookup prereleases
                          resolve_canonical_names
                          (str_path (parent (Path working_directory))) resolve_versions of
                     Inl e \<Rightarrow> (Inl e, fs)
                   | Inr new \<Rightarrow>
                       (case resolve_ireqs env (requirements req_file \<union> new) prereleases True of
                          Inl e \<Rightarrow> (Inl e, fs)
                        | Inr resolved_requirements \<Rightarrow>
                            (case relative_labels (nested_cfiles req_file) (parent filename) of
                               Inl e \<Rightarrow> (Inl e, fs)
                             | Inr clabels \<Rightarrow>
                                 (case relative_labels (nested_rfiles req_file)
                                         (parent filename) of
                                    Inl e \<Rightarrow> (Inl e, fs)
                                  | Inr rlabels \<Rightarrow>
                                      (case build_source_header now None index_url1
                                              (Some extras1) (Some (OrderedSet clabels))
                                              (Some (OrderedSet rlabels)) None of
                                         Inl e \<Rightarrow> (Inl e, fs)
                                       | Inr header \<Rightarrow>
                                           write_requirements env (str_path filename)
                                             resolved_requirements header fs))))))"

text \<open>
  Modelled from the spec: \<^verbatim>\<open>resolve_ireqs\<close> with \<^verbatim>\<open>intersect=true\<close>, the Version
  Intersector, which is not among the sources at hand. The specification describes it as
  a fold in two phases: the requirements are grouped by canonical name, and each group is
  reduced to the intersection of its version ranges; an empty intersection is a
  resolution failure, not a requirement dropped.
\<close>

definition Version_Intersector :: "'v ireq set \<Rightarrow> error + 'v ireq set" where
  "Version_Intersector reqs =
     (let merged = (\<lambda>n. (n, \<Inter> (snd ` {r \<in> reqs. fst r = n}))) ` (fst ` reqs)
      in if \<exists>m \<in> merged. snd m = {} then Inl (Raised ''unsatisfiable'') else Inr merged)"

section \<open>Lines of a text\<close>

text \<open>
  The lines of a text, each ended by a line break; what follows the last line break is a
  line when it is not empty.
\<close>

fun text_lines :: "string \<Rightarrow> string list" where
  "text_lines [] = []"
| "text_lines (c # cs) =
     (if c = NL then [] # text_lines cs
      else (case text_lines cs of [] \<Rightarrow> [[c]] | l # ls \<Rightarrow> (c # l) # ls))"

text \<open>The inverse: every line with its line break.\<close>

definition unlines :: "string list \<Rightarrow> string" where
  "unlines ls = concat (map (\<lambda>l. l @ [NL]) ls)"

text \<open>A blank line has nothing but white space.\<close>

definition blank :: "string \<Rightarrow> bool" where
  "blank l = list_all is_space l"

fun consecutive_blank :: "string list \<Rightarrow> bool" where
  "consecutive_blank (x # y # ls) = ((blank x \<and> blank y) \<or> consecutive_blank (y # ls))"
| "consecutive_blank ls = False"

definition trailing_newlines :: "string \<Rightarrow> nat" where
  "trailing_newlines s = length (takeWhile (\<lambda>c. c = NL) (rev s))"

text \<open>Texts of one line, and texts a format string takes literally.\<close>

definition one_line :: "string \<Rightarrow> bool" where
  "one_line s = (NL \<notin> set s)"

definition one_line_each :: "string list option \<Rightarrow> bool" where
  "one_line_each c = (case c of None \<Rightarrow> True | Some xs \<Rightarrow> list_all one_line xs)"

definition one_line_opt :: "string option \<Rightarrow> bool" where
  "one_line_opt u = (case u of None \<Rightarrow> True | Some s \<Rightarrow> one_line s)"

definition brace_free :: "string \<Rightarrow> bool" where
  "brace_free s = (CHR ''{'' \<notin> set s \<and> CHR ''}'' \<notin> set s)"

text \<open>A line is visible when it starts with a character that is not white space.\<close>

definition visible :: "string \<Rightarrow> bool" where
  "visible l = (l \<noteq> [] \<and> \<not> is_space (hd l))"

text \<open>
  The lines of a manifest header, as the file format has them: the two modelines, the
  banner, one \<^verbatim>\<open>-c\<close> line for each nested constraint file, one \<^verbatim>\<open>-r\<close> line for each nested
  requirement file, the \<^verbatim>\<open>--index-url\<close> line, one \<^verbatim>\<open>--extra-index-url\<close> line for each
  extra index.
\<close>

definition header_lines ::
  "datetime \<Rightarrow> string option \<Rightarrow> string list option \<Rightarrow> string list option \<Rightarrow>
   string list option \<Rightarrow> string list" where
  "header_lines t iu ex cf rf =
     [''# -*- mode: requirementstxt -*-'', ''# vim: set ft=requirements'',
      ''# Generated by reqwire on '' @ rendering t CHR ''c''] @
     map ((@) ''-c '') (case cf of None \<Rightarrow> [] | Some xs \<Rightarrow> xs) @
     map ((@) ''-r '') (case rf of None \<Rightarrow> [] | Some xs \<Rightarrow> xs) @
     (case iu of None \<Rightarrow> [] | Some u \<Rightarrow> [''--index-url '' @ strip u]) @
     map ((@) ''--extra-index-url '') (case ex of None \<Rightarrow> [] | Some xs \<Rightarrow> xs)"

section \<open>Example inputs\<close>

text \<open>A clock in the C locale, which renders no other conversion than \<^verbatim>\<open>%c\<close> here.\<close>

definition example_clock :: datetime where
  "example_clock =
     Datetime (\<lambda>c. if c = CHR ''c'' then ''Wed Nov  4 01:05:00 2026'' else [])"

text \<open>A file name with three line breaks in it.\<close>

definition broken_label :: string where
  "broken_label = ''a'' @ [NL, NL, NL] @ ''b''"

text \<open>
  A file system with a working directory, its source directory holding one manifest, and
  a directory the process may not write.
\<close>

definition example_fs :: filesystem where
  "example_fs =
     [''/'' \<mapsto> Dir True, ''/work'' \<mapsto> Dir True, ''/work/src'' \<mapsto> Dir True,
      ''/work/src/base.in'' \<mapsto> File True (''flask>=1.0'' @ [NL]),
      ''/ro'' \<mapsto> Dir False]"

text \<open>
  A manifest with an index URL, an extra index, three nested constraint files (two of them
  the same file) and two pinned packages; and a manifest that records nothing of its own.
  Versions are natural numbers.
\<close>

definition example_manifest :: "nat requirement_file" where
  "example_manifest =
     \<lparr>index_url = Some ''https://a/simple'',
      extra_index_urls = [''https://x/simple''],
      index_urls = {''https://a/simple'', ''https://x/simple'', ''https://n/simple''},
      nested_cfiles = [Path ''/work/src/common.in'', Path ''/work/src/sub/pins.in'',
                       Path ''/work/src/./common.in''],
      nested_rfiles = [],
      requirements = {(''foo'', {1..<3}), (''bar'', {5..<6})}\<rparr>"

definition bare_manifest :: "nat requirement_file" where
  "bare_manifest =
     \<lparr>index_url = None, extra_index_urls = [], index_urls = {''https://n/simple''},
      nested_cfiles = [], nested_rfiles = [], requirements = {}\<rparr>"

text \<open>
  Collaborators for the examples: the manifest model is given, the resolver knows one
  specifier and needs an index, the intersector is the one modelled from the
  specification, and the writer stores the header (the requirement lines need a formatter
  that is not among the sources).
\<close>

definition example_env :: "nat requirement_file \<Rightarrow> nat collaborators" where
  "example_env m =
     \<lparr>RequirementFile = (\<lambda>s fs. Inr m),
      build_ireq_set = (\<lambda>specifiers urls prereleases resolve_canonical_names source_dir
          resolve_versions.
          if urls = {} then Inl (Raised ''no index'')
          else Inr (if ''foo>=2,<4'' \<in> set specifiers then {(''foo'', {2..<4})} else {})),
      resolve_ireqs = (\<lambda>reqs prereleases intersect. Version_Intersector reqs),
      write_requirements = (\<lambda>s reqs header fs. (Inr (), fs(s \<mapsto> File True header)))\<rparr>"

section \<open>The header of the default template\<close>

lemma strftime_default:
  "strftime t DEFAULT_HEADER =
     ''# -*- mode: requirementstxt -*-'' @ [NL] @
     ''# vim: set ft=requirements'' @ [NL] @
     ''# Generated by reqwire on '' @ rendering t CHR ''c'' @ [NL] @
     ''{nested_cfiles}{nested_rfiles}{index_url}{extra_index_urls}'' @ [NL]"
  by (simp add: DEFAULT_HEADER_def MODELINES_HEADER_def)

lemma prepend_simps [simp]:
  "prepend v (Inl e) = Inl e" "prepend v (Inr s) = Inr (v @ s)"
  by (simp_all add: prepend_def)

lemma prepend_prepend: "prepend a (prepend b r) = prepend (a @ b) r"
  by (cases r) simp_all

lemma format_scan_literal:
  "CHR ''{'' \<notin> set xs \<Longrightarrow> CHR ''}'' \<notin> set xs \<Longrightarrow>
   format_scan kw None (xs @ ys) = prepend xs (format_scan kw None ys)"
proof (induction xs)
  case Nil
  show ?case by (cases "format_scan kw None ys") simp_all
next
  case (Cons x xs)
  then show ?case by (auto simp: prepend_prepend)
qed

lemma format_placeholders:
  "format_scan [''nested_cfiles'' \<mapsto> a, ''nested_rfiles'' \<mapsto> b, ''index_url'' \<mapsto> c,
                ''extra_index_urls'' \<mapsto> d] None
     (''{nested_cfiles}{nested_rfiles}{index_url}{extra_index_urls}'' @ [NL]) =
   Inr (a @ b @ c @ d @ [NL])"
  by (simp add: get_field_def)

lemma format_default:
  assumes "CHR ''{'' \<notin> set (rendering t CHR ''c'')" and "CHR ''}'' \<notin> set (rendering t CHR ''c'')"
  shows "format_str (strftime t DEFAULT_HEADER)
           [''nested_cfiles'' \<mapsto> a, ''nested_rfiles'' \<mapsto> b, ''index_url'' \<mapsto> c,
            ''extra_index_urls'' \<mapsto> d] =
         Inr (unlines [''# -*- mode: requirementstxt -*-'', ''# vim: set ft=requirements'',
                ''# Generated by reqwire on '' @ rendering t CHR ''c''] @ a @ b @ c @ d @ [NL])"
proof -
  let ?kw = "[''nested_cfiles'' \<mapsto> a, ''nested_rfiles'' \<mapsto> b, ''index_url'' \<mapsto> c,
            ''extra_index_urls'' \<mapsto> d]"
  let ?pre = "''# -*- mode: requirementstxt -*-'' @ [NL] @
     ''# vim: set ft=requirements'' @ [NL] @
     ''# Generated by reqwire on '' @ rendering t CHR ''c'' @ [NL]"
  let ?ph = "''{nested_cfiles}{nested_rfiles}{index_url}{extra_index_urls}'' @ [NL]"
  have split: "strftime t DEFAULT_HEADER = ?pre @ ?ph"
    by (simp add: strftime_default)
  have nb: "CHR ''{'' \<notin> set ?pre" "CHR ''}'' \<notin> set ?pre"
    using assms by simp_all
  have "format_scan ?kw None (?pre @ ?ph) = prepend ?pre (format_scan ?kw None ?ph)"
    by (rule format_scan_literal [OF nb])
  also have "\<dots> = Inr (?pre @ a @ b @ c @ d @ [NL])"
    by (simp only: format_placeholders prepend_simps)
  finally show ?thesis
    by (simp add: format_str_def split unlines_def)
qed

lemma unlines_simps [simp]:
  "unlines [] = []" "unlines (l # ls) = l @ NL # unlines ls"
  "unlines (xs @ ys) = unlines xs @ unlines ys"
  by (simp_all add: unlines_def)

lemma join_nonempty:
  "xs \<noteq> [] \<Longrightarrow> \<forall>x \<in> set xs. x \<noteq> [] \<Longrightarrow> join sep xs \<noteq> []"
  by (induction sep xs rule: join.induct) simp_all

lemma join_unlines:
  "\<forall>x \<in> set xs. x \<noteq> [] \<Longrightarrow> terminate_component (join [NL] xs) = unlines xs"
proof (induction "[NL]" xs rule: join.induct)
  case 1
  show ?case by (simp add: terminate_component_def)
next
  case (2 x)
  then show ?case by (simp add: terminate_component_def)
next
  case (3 x y ys)
  then have "join [NL] (y # ys) \<noteq> []"
    by (intro join_nonempty) simp_all
  with 3 show ?case by (simp add: terminate_component_def)
qed

lemma component_lines:
  "pre \<noteq> [] \<Longrightarrow>
   terminate_component (case c of None \<Rightarrow> [] | Some xs \<Rightarrow> join [NL] (map ((@) pre) xs)) =
   unlines (map ((@) pre) (case c of None \<Rightarrow> [] | Some xs \<Rightarrow> xs))"
proof (cases c)
  case None
  then show ?thesis by (simp add: terminate_component_def)
next
  case (Some xs)
  assume "pre \<noteq> []"
  then have "terminate_component (join [NL] (map ((@) pre) xs)) = unlines (map ((@) pre) xs)"
    by (intro join_unlines) simp
  with Some show ?thesis by simp
qed

lemma index_component:
  "terminate_component (case iu of None \<Rightarrow> [] | Some u \<Rightarrow> join '' '' [''--index-url'', strip u]) =
   unlines (case iu of None \<Rightarrow> [] | Some u \<Rightarrow> [''--index-url '' @ strip u])"
  by (cases iu) (simp_all add: terminate_component_def)

lemma extra_directive:
  "(\<lambda>extra_index_url. join '' '' [''--extra-index-url'', extra_index_url]) =
   (@) ''--extra-index-url ''"
  by (rule ext) simp

lemma rstrip_append:
  "rstrip (a @ b) = (if \<forall>x \<in> set b. is_space x then rstrip a else a @ rstrip b)"
  by (simp add: rstrip_def dropWhile_append)

lemma rstrip_visible: "\<not> is_space c \<Longrightarrow> rstrip (c # t) = c # rstrip t"
  using rstrip_append [of "[c]" t] by (auto simp: rstrip_def)

lemma set_rstrip: "set (rstrip s) \<subseteq> set s"
  by (auto simp: rstrip_def dest: set_dropWhileD)

lemma set_strip: "set (strip s) \<subseteq> set s"
  using set_rstrip by (auto simp: strip_def dest!: set_dropWhileD)

lemma rstrip_last: "rstrip s \<noteq> [] \<Longrightarrow> \<not> is_space (last (rstrip s))"
  unfolding rstrip_def using hd_dropWhile [of is_space "rev s"]
  by (simp add: last_rev)

lemma is_space_NL [simp]: "is_space NL"
  by (simp add: is_space_def)

lemma strip_lines:
  assumes "ls \<noteq> []" and "\<forall>l \<in> set ls. visible l"
  shows "strip (unlines ls @ [NL]) = unlines (butlast ls) @ rstrip (last ls)"
proof -
  obtain c t where last: "last ls = c # t" and c: "\<not> is_space c"
    using assms last_in_set [of ls] by (cases "last ls") (auto simp: visible_def)
  have dec: "unlines ls = unlines (butlast ls) @ last ls @ [NL]"
    using assms(1) append_butlast_last_id [of ls, symmetric]
    by (metis unlines_simps(1,2,3) append_Nil2 append_Cons append_Nil)
  have r: "rstrip (unlines ls @ [NL]) = unlines (butlast ls) @ rstrip (last ls)"
  proof -
    have "rstrip (unlines ls @ [NL]) = rstrip (unlines (butlast ls) @ (last ls @ [NL, NL]))"
      by (simp add: dec)
    also have "\<dots> = unlines (butlast ls) @ rstrip (last ls @ [NL, NL])"
      using c by (subst rstrip_append) (auto simp: last)
    also have "rstrip (last ls @ [NL, NL]) = rstrip (last ls)"
      by (subst rstrip_append) simp
    finally show ?thesis .
  qed
  have "\<exists>d u. unlines (butlast ls) @ rstrip (last ls) = d # u \<and> \<not> is_space d"
  proof (cases "butlast ls")
    case Nil
    then show ?thesis using c by (simp add: last rstrip_visible)
  next
    case (Cons l ls')
    then have "l \<in> set ls" by (metis in_set_butlastD list.set_intros(1))
    with assms(2) obtain d u where "l = d # u" "\<not> is_space d"
      by (cases l) (auto simp: visible_def)
    with Cons show ?thesis by simp
  qed
  then show ?thesis by (auto simp: strip_def r)
qed

lemma header_lines_visible: "\<forall>l \<in> set (header_lines t iu ex cf rf). visible l"
  by (auto simp: header_lines_def visible_def is_space_def split: option.splits)

lemma header_lines_nonempty: "header_lines t iu ex cf rf \<noteq> []"
  by (simp add: header_lines_def)

lemma unlines_header_lines:
  "unlines (header_lines t iu ex cf rf) =
     unlines [''# -*- mode: requirementstxt -*-'', ''# vim: set ft=requirements'',
       ''# Generated by reqwire on '' @ rendering t CHR ''c''] @
     unlines (map ((@) ''-c '') (case cf of None \<Rightarrow> [] | Some xs \<Rightarrow> xs)) @
     unlines (map ((@) ''-r '') (case rf of None \<Rightarrow> [] | Some xs \<Rightarrow> xs)) @
     unlines (case iu of None \<Rightarrow> [] | Some u \<Rightarrow> [''--index-url '' @ strip u]) @
     unlines (map ((@) ''--extra-index-url '') (case ex of None \<Rightarrow> [] | Some xs \<Rightarrow> xs))"
  unfolding header_lines_def by (simp only: unlines_simps(3))

lemma header_normal_form:
  assumes "brace_free (rendering t CHR ''c'')"
    and "t = (case timestamp of None \<Rightarrow> now | Some t' \<Rightarrow> t')"
  shows "build_source_header now None iu ex cf rf timestamp =
         Inr (unlines (butlast (header_lines t iu ex cf rf) @
                [rstrip (last (header_lines t iu ex cf rf))]))"
proof -
  let ?ls = "header_lines t iu ex cf rf"
  have "build_source_header now None iu ex cf rf timestamp =
        (case format_str (strftime t DEFAULT_HEADER)
           [''nested_cfiles'' \<mapsto> unlines (map ((@) ''-c '') (case cf of None \<Rightarrow> [] | Some xs \<Rightarrow> xs)),
            ''nested_rfiles'' \<mapsto> unlines (map ((@) ''-r '') (case rf of None \<Rightarrow> [] | Some xs \<Rightarrow> xs)),
            ''index_url'' \<mapsto> unlines (case iu of None \<Rightarrow> [] | Some u \<Rightarrow> [''--index-url '' @ strip u]),
            ''extra_index_urls'' \<mapsto>
               unlines (map ((@) ''--extra-index-url '') (case ex of None \<Rightarrow> [] | Some xs \<Rightarrow> xs))] of
           Inl e \<Rightarrow> Inl e | Inr s \<Rightarrow> Inr (strip s @ [NL]))"
    unfolding build_source_header_def Let_def extra_directive assms(2)
    by (simp only: option.case component_lines index_component list.distinct not_False_eq_True)
  also have "\<dots> = Inr (strip (unlines ?ls @ [NL]) @ [NL])"
  proof -
    from assms(1) have nb: "CHR ''{'' \<notin> set (rendering t CHR ''c'')" "CHR ''}'' \<notin> set (rendering t CHR ''c'')"
      by (simp_all add: brace_free_def)
    show ?thesis
      by (simp only: format_default [of t, OF nb] sum.case unlines_header_lines append_assoc)
  qed
  also have "strip (unlines ?ls @ [NL]) = unlines (butlast ?ls) @ rstrip (last ?ls)"
    by (rule strip_lines [OF header_lines_nonempty header_lines_visible])
  finally show ?thesis by simp
qed

lemma text_lines_line:
  "NL \<notin> set l \<Longrightarrow> text_lines (l @ NL # rest) = l # text_lines rest"
  by (induction l) auto

lemma text_lines_unlines:
  "\<forall>l \<in> set ls. one_line l \<Longrightarrow> text_lines (unlines ls) = ls"
  by (induction ls) (simp_all add: text_lines_line one_line_def)

lemma one_line_rstrip: "one_line l \<Longrightarrow> one_line (rstrip l)"
  using set_rstrip [of l] by (auto simp: one_line_def)

lemma one_line_strip: "one_line l \<Longrightarrow> one_line (strip l)"
  using set_strip [of l] by (auto simp: one_line_def)

lemma visible_rstrip: "visible l \<Longrightarrow> visible (rstrip l)"
  by (cases l) (simp_all add: visible_def rstrip_visible)

lemma visible_not_blank: "visible l \<Longrightarrow> \<not> blank l"
  by (cases l) (simp_all add: visible_def blank_def)

lemma no_blank_no_consecutive:
  "\<forall>l \<in> set ls. \<not> blank l \<Longrightarrow> \<not> consecutive_blank ls"
  by (induction ls rule: consecutive_blank.induct) simp_all

lemma header_lines_one_line:
  assumes "one_line (rendering t CHR ''c'')" "one_line_opt iu" "one_line_each ex" "one_line_each cf"
    "one_line_each rf"
  shows "\<forall>l \<in> set (header_lines t iu ex cf rf). one_line l"
  using assms one_line_strip
  by (auto simp: header_lines_def one_line_def one_line_opt_def one_line_each_def list_all_iff
      split: option.splits)

lemma trailing_newlines_one:
  "s \<noteq> [] \<Longrightarrow> last s \<noteq> NL \<Longrightarrow> trailing_newlines (s @ [NL]) = 1"
  by (cases "rev s") (auto simp: trailing_newlines_def last_rev [symmetric] simp del: last_rev)

lemma final_lines:
  assumes "ls \<noteq> []" "\<forall>l \<in> set ls. visible l"
  shows "\<forall>l \<in> set (butlast ls @ [rstrip (last ls)]). visible l"
  using assms by (auto dest: in_set_butlastD intro: visible_rstrip)

lemma unlines_ends:
  assumes "visible l"
  shows "\<exists>s. unlines (ls @ [rstrip l]) = s @ [NL] \<and> s \<noteq> [] \<and> last s \<noteq> NL"
proof -
  from assms have ne: "rstrip l \<noteq> []"
    using visible_rstrip [of l] by (auto simp: visible_def)
  then have "\<not> is_space (last (rstrip l))" by (rule rstrip_last)
  then have "last (rstrip l) \<noteq> NL" by auto
  with ne show ?thesis
    by (intro exI [of _ "unlines ls @ rstrip l"]) simp
qed

section \<open>The initializer\<close>

lemma header_plain:
  assumes "brace_free (rendering now CHR ''c'')"
  shows "build_source_header now None None None None None None =
         Inr (unlines [''# -*- mode: requirementstxt -*-'', ''# vim: set ft=requirements'',
                rstrip (''# Generated by reqwire on '' @ rendering now CHR ''c'')])"
proof -
  have "build_source_header now None None None None None None =
      Inr (unlines (butlast (header_lines now None None None None) @
                [rstrip (last (header_lines now None None None None))]))"
    using assms by (rule header_normal_form) simp
  then show ?thesis by (simp add: header_lines_def)
qed

lemma init_source_file_existing:
  assumes "fs (str_path (build_filename working_directory tag_name extension ''src'')) =
             Some (File True c)"
    and "build_source_header now None None None None None None = Inr h"
  shows "init_source_file now working_directory tag_name extension iu ex None None mode
           overwrite fs =
         (Inr (build_filename working_directory tag_name extension ''src''),
          fs(str_path (build_filename working_directory tag_name extension ''src'') \<mapsto>
               File True (encode_utf8 h)))"
  using assms
  by (simp add: init_source_file_def Path_touch_def io_open_wb_def file_write_def Let_def)

lemma Path_mkdir_error:
  assumes "os_mkdir (str_path p) mode fs = (Inl e, fs1)" and "e \<noteq> FileNotFoundError"
  shows "Path_mkdir p mode parents False fs = (Inl e, fs1)"
  using assms by (subst Path_mkdir.simps) simp

lemma header_plain_lines:
  assumes "brace_free (rendering now CHR ''c'')" and "one_line (rendering now CHR ''c'')"
  shows "\<exists>h. build_source_header now None None None None None None = Inr h
           \<and> text_lines h = [''# -*- mode: requirementstxt -*-'', ''# vim: set ft=requirements'',
                rstrip (''# Generated by reqwire on '' @ rendering now CHR ''c'')]"
proof -
  have "one_line (''# Generated by reqwire on '' @ rendering now CHR ''c'')"
    using assms(2) by (simp add: one_line_def)
  then have "one_line (rstrip (''# Generated by reqwire on '' @ rendering now CHR ''c''))"
    by (rule one_line_rstrip)
  then have "text_lines (unlines [''# -*- mode: requirementstxt -*-'',
       ''# vim: set ft=requirements'', rstrip (''# Generated by reqwire on '' @ rendering now CHR ''c'')]) =
     [''# -*- mode: requirementstxt -*-'', ''# vim: set ft=requirements'',
                rstrip (''# Generated by reqwire on '' @ rendering now CHR ''c'')]"
    by (intro text_lines_unlines) (simp add: one_line_def)
  with header_plain [OF assms(1)] show ?thesis by simp
qed

lemma init_source_file_written:
  assumes "init_source_file now working_directory tag_name extension iu ex encoding errors mode
             overwrite fs = (Inr p, fs')"
  shows "\<exists>h. build_source_header now None None None None None None = Inr h
           \<and> fs' (str_path p) = Some (File True (encode_utf8 h))"
  using assms
  by (auto simp: init_source_file_def io_open_wb_def file_write_def create_entry_def Let_def
      split: prod.splits sum.splits if_splits option.splits node.splits)

section \<open>The engine\<close>

lemma extend_source_file_success:
  assumes "extend_source_file env now working_directory tag_name specifiers extension iu
             extras lookup prereleases resolve_canonical_names resolve_versions fs = (Inr u, fs')"
  shows "\<exists>req_file urls new resolved clabels rlabels index_url1 extras1 header.
           RequirementFile env (str_path (build_filename working_directory tag_name extension ''src''))
             fs = Inr req_file
         \<and> build_ireq_set env specifiers urls prereleases resolve_canonical_names
              (str_path (parent (Path working_directory))) resolve_versions = Inr new
         \<and> resolve_ireqs env (requirements req_file \<union> new) prereleases True = Inr resolved
         \<and> relative_labels (nested_cfiles req_file)
              (parent (build_filename working_directory tag_name extension ''src'')) = Inr clabels
         \<and> relative_labels (nested_rfiles req_file)
              (parent (build_filename working_directory tag_name extension ''src'')) = Inr rlabels
         \<and> build_source_header now None index_url1 (Some extras1) (Some (OrderedSet clabels))
              (Some (OrderedSet rlabels)) None = Inr header
         \<and> write_requirements env
              (str_path (build_filename working_directory tag_name extension ''src''))
              resolved header fs = (Inr u, fs')"
  using assms unfolding extend_source_file_def Let_def
  by (simp split: sum.splits if_splits) blast+

lemma set_os_update: "set (os_update xs ys) = set xs \<union> set ys"
  unfolding os_update_def by (induction ys arbitrary: xs) (auto simp: os_add_def)

lemma distinct_os_update: "distinct xs \<Longrightarrow> distinct (os_update xs ys)"
  unfolding os_update_def by (induction ys arbitrary: xs) (auto simp: os_add_def)

lemma set_OrderedSet: "set (OrderedSet ys) = set ys"
  by (simp add: OrderedSet_def set_os_update)

lemma distinct_OrderedSet: "distinct (OrderedSet ys)"
  by (simp add: OrderedSet_def distinct_os_update)

lemma remdups_snoc: "remdups (zs @ [y]) = removeAll y (remdups zs) @ [y]"
  by (induction zs) (auto simp: removeAll_filter_not_eq)

lemma os_update_first_occurrences:
  "os_update xs ys = xs @ rev (remdups (rev (filter (\<lambda>y. y \<notin> set xs) ys)))"
proof (induction ys arbitrary: xs)
  case Nil
  show ?case by (simp add: os_update_def)
next
  case (Cons y ys)
  have step: "os_update xs (y # ys) = os_update (os_add xs y) ys"
    by (simp add: os_update_def)
  show ?case
  proof (cases "y \<in> set xs")
    case True
    then show ?thesis by (simp add: step os_add_def Cons.IH)
  next
    case False
    have "removeAll y (remdups (rev (filter (\<lambda>z. z \<notin> set xs) ys))) =
          remdups (rev (filter (\<lambda>z. z \<notin> set (xs @ [y])) ys))"
    proof -
      have "removeAll y (remdups (rev (filter (\<lambda>z. z \<notin> set xs) ys))) =
            remdups (filter ((\<noteq>) y) (rev (filter (\<lambda>z. z \<notin> set xs) ys)))"
        by (simp only: removeAll_filter_not_eq remdups_filter)
      also have "filter ((\<noteq>) y) (rev (filter (\<lambda>z. z \<notin> set xs) ys)) =
            rev (filter (\<lambda>z. z \<notin> set (xs @ [y])) ys)"
        by (simp add: rev_filter [symmetric] conj_commute eq_commute cong: filter_cong)
      finally show ?thesis .
    qed
    with False show ?thesis
      by (simp add: step os_add_def Cons.IH remdups_snoc)
  qed
qed

lemma OrderedSet_first_occurrences: "OrderedSet ys = rev (remdups (rev ys))"
  by (simp add: OrderedSet_def os_update_first_occurrences)

lemma Version_Intersector_sound:
  assumes "Version_Intersector reqs = Inr resolved"
  shows "(\<forall>r \<in> resolved. \<forall>r' \<in> resolved. fst r = fst r' \<longrightarrow> r = r')
       \<and> (\<forall>r \<in> resolved. snd r = \<Inter> (snd ` {q \<in> reqs. fst q = fst r}) \<and> snd r \<noteq> {})
       \<and> fst ` resolved = fst ` reqs"
  using assms
  by (auto simp: Version_Intersector_def Let_def image_iff split: if_splits) force+

section \<open>Claims\<close>

text \<open>
  C8: \<^verbatim>\<open>build_filename\<close> is a function of its four arguments alone (the model gives it no
  file system to read, and nothing has to exist): for all inputs it returns
  \<^verbatim>\<open>working_directory / prefix / (tag_name + extension)\<close>, and
  \<^verbatim>\<open>build_filename("/work", "base", ".in", "src")\<close> is the path \<^verbatim>\<open>/work/src/base.in\<close>.
\<close>

theorem build_filename_pure:
  "build_filename working_directory tag_name extension prefix =
     joinpath (joinpath (Path working_directory) prefix) (tag_name @ extension)
   \<and> build_filename ''/work'' ''base'' ''.in'' ''src'' =
       \<lparr>anchor = ''/'', names = [''work'', ''src'', ''base.in'']\<rparr>
   \<and> str_path (build_filename ''/work'' ''base'' ''.in'' ''src'') = ''/work/src/base.in''"
proof (intro conjI)
  show "build_filename working_directory tag_name extension prefix =
     joinpath (joinpath (Path working_directory) prefix) (tag_name @ extension)"
    by (simp add: build_filename_def)
  show "build_filename ''/work'' ''base'' ''.in'' ''src'' =
       \<lparr>anchor = ''/'', names = [''work'', ''src'', ''base.in'']\<rparr>"
    by (simp add: build_filename_def joinpath_def Path_def splitroot_def)
  then show "str_path (build_filename ''/work'' ''base'' ''.in'' ''src'') = ''/work/src/base.in''"
    by (simp add: str_path_def)
qed

text \<open>The same at another input, where the prefix is absolute and replaces the working directory.\<close>

theorem build_filename_pure_witness:
  "build_filename ''srv/app'' ''dev'' ''.txt'' ''/reqs'' = \<lparr>anchor = ''/'', names = [''reqs'', ''dev.txt'']\<rparr>"
  using build_filename_pure [of "''srv/app''" "''dev''" "''.txt''" "''/reqs''"]
  by (simp add: joinpath_def Path_def splitroot_def)

text \<open>
  C6, as amended: under the default template, for every combination of present and absent
  components whose elements and index URL contain no line break, and a clock whose
  rendering of \<^verbatim>\<open>%c\<close> has no line break and no brace, the header has no two consecutive
  blank lines and ends with exactly one line break.
\<close>

theorem header_no_double_blank_lines:
  assumes "clock = (case timestamp of None \<Rightarrow> now | Some t \<Rightarrow> t)"
    and "brace_free (rendering clock CHR ''c'')" and "one_line (rendering clock CHR ''c'')"
    and "one_line_each cf" and "one_line_each rf" and "one_line_opt iu" and "one_line_each ex"
  shows "\<exists>h. build_source_header now None iu ex cf rf timestamp = Inr h
           \<and> \<not> consecutive_blank (text_lines h) \<and> trailing_newlines h = 1"
proof -
  let ?ls = "header_lines clock iu ex cf rf"
  let ?out = "butlast ?ls @ [rstrip (last ?ls)]"
  have h: "build_source_header now None iu ex cf rf timestamp = Inr (unlines ?out)"
    using assms(2) assms(1) by (rule header_normal_form)
  have vis: "\<forall>l \<in> set ?out. visible l"
    by (rule final_lines [OF header_lines_nonempty header_lines_visible])
  have ol: "\<forall>l \<in> set ?ls. one_line l"
    using assms(3) assms(6) assms(7) assms(4) assms(5) by (rule header_lines_one_line)
  have "\<forall>l \<in> set ?out. one_line l"
    using ol header_lines_nonempty [of clock iu ex cf rf]
    by (auto dest: in_set_butlastD intro: one_line_rstrip)
  then have "text_lines (unlines ?out) = ?out" by (rule text_lines_unlines)
  moreover have "\<not> consecutive_blank ?out"
    using vis by (intro no_blank_no_consecutive) (auto dest: visible_not_blank)
  moreover have "trailing_newlines (unlines ?out) = 1"
  proof -
    have "visible (last ?ls)"
      using header_lines_visible header_lines_nonempty last_in_set by blast
    then obtain s where "unlines ?out = s @ [NL]" "s \<noteq> []" "last s \<noteq> NL"
      using unlines_ends by blast
    then show ?thesis by (metis trailing_newlines_one)
  qed
  ultimately show ?thesis using h by simp
qed

theorem header_no_double_blank_lines_witness:
  "brace_free (rendering example_clock CHR ''c'') \<and> one_line (rendering example_clock CHR ''c'')
   \<and> one_line_each (Some [''common.in'', ''../pins.in'']) \<and> one_line_each (Some [])
   \<and> one_line_opt (Some '' https://a/simple '') \<and> one_line_each (Some [''https://b/simple''])
   \<and> (\<exists>h. build_source_header example_clock None (Some '' https://a/simple '')
              (Some [''https://b/simple'']) (Some [''common.in'', ''../pins.in'']) (Some [])
              None = Inr h
          \<and> \<not> consecutive_blank (text_lines h) \<and> trailing_newlines h = 1)"
  using header_no_double_blank_lines [where clock = example_clock and timestamp = None
      and now = example_clock and cf = "Some [''common.in'', ''../pins.in'']" and rf = "Some []"
      and iu = "Some '' https://a/simple ''" and ex = "Some [''https://b/simple'']"]
  by (simp add: brace_free_def one_line_def one_line_each_def one_line_opt_def example_clock_def)

text \<open>
  C6 as stated fails: a nested constraint file whose name is the non-empty string
  \<open>broken_label\<close> gives a header with two consecutive blank lines.
\<close>

theorem header_blank_lines_counterexample:
  "\<not> isl (build_source_header example_clock None None None (Some [broken_label]) None None)
   \<and> consecutive_blank (text_lines (projr
        (build_source_header example_clock None None None (Some [broken_label]) None None)))"
proof -
  have "brace_free (rendering example_clock CHR ''c'')"
    by (simp add: brace_free_def example_clock_def)
  then have h: "build_source_header example_clock None None None (Some [broken_label]) None None =
      Inr (unlines (butlast (header_lines example_clock None None (Some [broken_label]) None) @
                [rstrip (last (header_lines example_clock None None (Some [broken_label]) None))]))"
    by (rule header_normal_form) simp
  show ?thesis
    unfolding h
    by (simp add: header_lines_def broken_label_def rstrip_def is_space_def blank_def
        example_clock_def)
qed

text \<open>
  C10: when directory creation raises an \<^verbatim>\<open>OSError\<close>, whichever it is, \<^verbatim>\<open>init_source_dir\<close>
  with \<^verbatim>\<open>exist_ok=true\<close> swallows it and returns the path \<^verbatim>\<open>working_directory/name\<close>, and
  with \<^verbatim>\<open>exist_ok=false\<close> raises it unchanged; the file system is the one the failed
  creation left.
\<close>

theorem init_source_dir_swallows_every_oserror:
  assumes "Path_mkdir (joinpath (Path working_directory) name) mode create_parents False fs =
             (Inl e, fs1)"
  shows "init_source_dir working_directory mode create_parents True name fs =
           (Inr (joinpath (Path working_directory) name), fs1)
         \<and> init_source_dir working_directory mode create_parents False name fs =
           (Inl (OSError e), fs1)"
  using assms by (simp add: init_source_dir_def)

text \<open>
  A denied permission is swallowed like an existing target: the source directory cannot be
  made in \<^verbatim>\<open>/ro\<close>, and its path is returned all the same.
\<close>

theorem init_source_dir_swallows_every_oserror_witness:
  "Path_mkdir (joinpath (Path ''/ro'') ''src'') 511 True False example_fs =
     (Inl PermissionError, example_fs)
   \<and> init_source_dir ''/ro'' 511 True True ''src'' example_fs =
       (Inr \<lparr>anchor = ''/'', names = [''ro'', ''src'']\<rparr>, example_fs)
   \<and> init_source_dir ''/ro'' 511 True False ''src'' example_fs =
       (Inl (OSError PermissionError), example_fs)"
proof -
  have p: "joinpath (Path ''/ro'') ''src'' = \<lparr>anchor = ''/'', names = [''ro'', ''src'']\<rparr>"
    by (simp add: joinpath_def Path_def splitroot_def)
  have "os_mkdir (str_path (joinpath (Path ''/ro'') ''src'')) 511 example_fs =
          (Inl PermissionError, example_fs)"
    unfolding p
    by (simp add: os_mkdir_def create_entry_def dirname_def str_path_def parent_def Path_def
        splitroot_def example_fs_def)
  then have m: "Path_mkdir (joinpath (Path ''/ro'') ''src'') 511 True False example_fs =
     (Inl PermissionError, example_fs)"
    by (rule Path_mkdir_error) simp
  from init_source_dir_swallows_every_oserror [OF m] m p show ?thesis by simp
qed

text \<open>
  C2, at the input where the code leaves the claim: the manifest \<^verbatim>\<open>/work/src/base.in\<close>
  exists and holds a requirement; \<^verbatim>\<open>init_source_file\<close> with \<^verbatim>\<open>overwrite=false\<close> raises
  nothing, returns the path and leaves a file that holds the fresh header only.
\<close>

theorem init_source_file_overwrites_when_told_not_to:
  "fst (init_source_file example_clock ''/work'' ''base'' ''.in'' None None None None 438 False
          example_fs) = Inr \<lparr>anchor = ''/'', names = [''work'', ''src'', ''base.in'']\<rparr>
   \<and> example_fs ''/work/src/base.in'' = Some (File True (''flask>=1.0'' @ [NL]))
   \<and> snd (init_source_file example_clock ''/work'' ''base'' ''.in'' None None None None 438 False
          example_fs) ''/work/src/base.in'' =
       Some (File True (unlines [''# -*- mode: requirementstxt -*-'',
         ''# vim: set ft=requirements'', ''# Generated by reqwire on Wed Nov  4 01:05:00 2026'']))"
proof -
  have p: "build_filename ''/work'' ''base'' ''.in'' ''src'' =
      \<lparr>anchor = ''/'', names = [''work'', ''src'', ''base.in'']\<rparr>"
    by (simp add: build_filename_def joinpath_def Path_def splitroot_def)
  have s: "str_path \<lparr>anchor = ''/'', names = [''work'', ''src'', ''base.in'']\<rparr> = ''/work/src/base.in''"
    by (simp add: str_path_def)
  have f: "example_fs ''/work/src/base.in'' = Some (File True (''flask>=1.0'' @ [NL]))"
    by (simp add: example_fs_def)
  have "brace_free (rendering example_clock CHR ''c'')"
    by (simp add: brace_free_def example_clock_def)
  then have h: "build_source_header example_clock None None None None None None =
      Inr (unlines [''# -*- mode: requirementstxt -*-'', ''# vim: set ft=requirements'',
             ''# Generated by reqwire on Wed Nov  4 01:05:00 2026''])"
    by (simp add: header_plain example_clock_def rstrip_def is_space_def)
  have e: "encode_utf8 (unlines [''# -*- mode: requirementstxt -*-'',
       ''# vim: set ft=requirements'', ''# Generated by reqwire on Wed Nov  4 01:05:00 2026'']) =
     unlines [''# -*- mode: requirementstxt -*-'',
       ''# vim: set ft=requirements'', ''# Generated by reqwire on Wed Nov  4 01:05:00 2026'']"
    by (simp add: encode_utf8_def)
  have "init_source_file example_clock ''/work'' ''base'' ''.in'' None None None None 438 False
          example_fs =
        (Inr \<lparr>anchor = ''/'', names = [''work'', ''src'', ''base.in'']\<rparr>,
         example_fs(''/work/src/base.in'' \<mapsto> File True (encode_utf8 (unlines
           [''# -*- mode: requirementstxt -*-'', ''# vim: set ft=requirements'',
            ''# Generated by reqwire on Wed Nov  4 01:05:00 2026'']))))"
    using init_source_file_existing [of example_fs "''/work''" "''base''" "''.in''"
        "''flask>=1.0'' @ [NL]" example_clock _ None None 438 False, OF _ h]
    by (simp only: p s f)
  then show ?thesis by (simp only: e f fst_conv snd_conv fun_upd_same simp_thms)
qed

text \<open>
  C9: two calls of \<^verbatim>\<open>init_source_file\<close> that differ in \<^verbatim>\<open>index_url\<close> and
  \<^verbatim>\<open>extra_index_urls\<close> only give the same result and the same file system; and the file a
  successful call writes holds the header of the two modelines and the banner, so no
  \<^verbatim>\<open>--index-url\<close> and no \<^verbatim>\<open>--extra-index-url\<close> line (for a clock whose rendering of
  \<^verbatim>\<open>%c\<close> has no line break and no brace).
\<close>

theorem init_source_file_ignores_index_arguments:
  assumes "brace_free (rendering now CHR ''c'')" and "one_line (rendering now CHR ''c'')"
  shows "init_source_file now working_directory tag_name extension iu1 ex1 encoding errors mode
           overwrite fs =
         init_source_file now working_directory tag_name extension iu2 ex2 encoding errors mode
           overwrite fs
       \<and> (\<forall>p fs'. init_source_file now working_directory tag_name extension iu1 ex1 encoding
                      errors mode overwrite fs = (Inr p, fs') \<longrightarrow>
             (\<exists>h. fs' (str_path p) = Some (File True (encode_utf8 h))
                \<and> text_lines h =
                    [''# -*- mode: requirementstxt -*-'', ''# vim: set ft=requirements'',
                     rstrip (''# Generated by reqwire on '' @ rendering now CHR ''c'')]))"
proof (intro conjI allI impI)
  show "init_source_file now working_directory tag_name extension iu1 ex1 encoding errors mode
           overwrite fs =
         init_source_file now working_directory tag_name extension iu2 ex2 encoding errors mode
           overwrite fs"
    by (simp add: init_source_file_def)
next
  fix p fs'
  assume "init_source_file now working_directory tag_name extension iu1 ex1 encoding
                      errors mode overwrite fs = (Inr p, fs')"
  then obtain h where h: "build_source_header now None None None None None None = Inr h"
    and f: "fs' (str_path p) = Some (File True (encode_utf8 h))"
    using init_source_file_written by blast
  from header_plain_lines [OF assms] h
  have "text_lines h = [''# -*- mode: requirementstxt -*-'', ''# vim: set ft=requirements'',
                     rstrip (''# Generated by reqwire on '' @ rendering now CHR ''c'')]"
    by auto
  with f show "\<exists>h. fs' (str_path p) = Some (File True (encode_utf8 h))
                \<and> text_lines h =
                    [''# -*- mode: requirementstxt -*-'', ''# vim: set ft=requirements'',
                     rstrip (''# Generated by reqwire on '' @ rendering now CHR ''c'')]"
    by blast
qed

theorem init_source_file_ignores_index_arguments_witness:
  "brace_free (rendering example_clock CHR ''c'') \<and> one_line (rendering example_clock CHR ''c'')
   \<and> init_source_file example_clock ''/work'' ''dev'' ''.in'' (Some ''https://a/simple'')
        (Some [''https://b/simple'']) None None 438 False example_fs =
     init_source_file example_clock ''/work'' ''dev'' ''.in'' None None None None 438 False
        example_fs"
proof -
  have c: "brace_free (rendering example_clock CHR ''c'')" "one_line (rendering example_clock CHR ''c'')"
    by (simp_all add: brace_free_def one_line_def example_clock_def)
  from init_source_file_ignores_index_arguments [OF c, of "''/work''" "''dev''" "''.in''"
      "Some ''https://a/simple''" "Some [''https://b/simple'']" None None 438 False example_fs
      None None] c
  show ?thesis by simp
qed

text \<open>
  C1: when the manifest exists and records the index URL \<open>a\<close>, a call of
  \<^verbatim>\<open>extend_source_file\<close> with an explicit index URL \<open>b\<close> other than \<open>a\<close> raises the
  index-URL-mismatch error, and the file system (so the bytes of the manifest) is the one
  before the call, whatever the writer would have done.
\<close>

theorem extend_source_file_index_url_mismatch:
  assumes "RequirementFile env (str_path (build_filename working_directory tag_name extension ''src''))
             fs = Inr req_file"
    and "Path_exists (build_filename working_directory tag_name extension ''src'') fs"
    and "index_url req_file = Some a" and "b \<noteq> a"
  shows "extend_source_file env now working_directory tag_name specifiers extension (Some b)
           extras lookup prereleases resolve_canonical_names resolve_versions fs =
         (Inl (IndexUrlMismatchError ([DQ] @ b @ [DQ] @ '' != '' @ [DQ] @ a @ [DQ])), fs)"
  using assms by (simp add: extend_source_file_def Let_def format_value_def)

theorem extend_source_file_index_url_mismatch_witness:
  "RequirementFile (example_env example_manifest)
     (str_path (build_filename ''/work'' ''base'' ''.in'' ''src'')) example_fs =
     Inr example_manifest
   \<and> Path_exists (build_filename ''/work'' ''base'' ''.in'' ''src'') example_fs
   \<and> index_url example_manifest = Some ''https://a/simple''
   \<and> ''https://b/simple'' \<noteq> ''https://a/simple''
   \<and> extend_source_file (example_env example_manifest) example_clock ''/work'' ''base''
       [''foo>=2,<4''] ''.in'' (Some ''https://b/simple'') None None False True True example_fs =
     (Inl (IndexUrlMismatchError
        ([DQ] @ ''https://b/simple'' @ [DQ] @ '' != '' @ [DQ] @ ''https://a/simple'' @ [DQ])),
      example_fs)"
proof -
  have l: "RequirementFile (example_env example_manifest)
     (str_path (build_filename ''/work'' ''base'' ''.in'' ''src'')) example_fs =
     Inr example_manifest"
    by (simp add: example_env_def)
  have e: "Path_exists (build_filename ''/work'' ''base'' ''.in'' ''src'') example_fs"
    by (simp add: Path_exists_def build_filename_def joinpath_def Path_def splitroot_def
        str_path_def example_fs_def)
  have i: "index_url example_manifest = Some ''https://a/simple''"
    by (simp add: example_manifest_def)
  have d: "''https://b/simple'' \<noteq> ''https://a/simple''" by simp
  from extend_source_file_index_url_mismatch [OF l e i d] l e i d show ?thesis by blast
qed

text \<open>
  C4: a successful call of \<^verbatim>\<open>extend_source_file\<close> hands the writer what
  \<^verbatim>\<open>resolve_ireqs\<close> with \<^verbatim>\<open>intersect=true\<close> returns for the union of the manifest's
  requirements and the newly resolved ones; and when \<^verbatim>\<open>resolve_ireqs\<close> is the Version
  Intersector of the specification, the written set has one entry for each canonical
  name, whose version range is the intersection of all the ranges the union has for that
  name.
\<close>

theorem extend_source_file_writes_intersection:
  assumes "extend_source_file env now working_directory tag_name specifiers extension iu
             extras lookup prereleases resolve_canonical_names resolve_versions fs =
           (Inr (), fs')"
  shows "\<exists>req_file urls new resolved header.
           RequirementFile env
             (str_path (build_filename working_directory tag_name extension ''src'')) fs =
             Inr req_file
         \<and> build_ireq_set env specifiers urls prereleases resolve_canonical_names
              (str_path (parent (Path working_directory))) resolve_versions = Inr new
         \<and> resolve_ireqs env (requirements req_file \<union> new) prereleases True = Inr resolved
         \<and> write_requirements env
              (str_path (build_filename working_directory tag_name extension ''src''))
              resolved header fs = (Inr (), fs')
         \<and> ((\<forall>reqs. resolve_ireqs env reqs prereleases True = Version_Intersector reqs) \<longrightarrow>
               (\<forall>r \<in> resolved. \<forall>r' \<in> resolved. fst r = fst r' \<longrightarrow> r = r')
             \<and> (\<forall>r \<in> resolved.
                   snd r = \<Inter> (snd ` {q \<in> requirements req_file \<union> new. fst q = fst r}))
             \<and> fst ` resolved = fst ` (requirements req_file \<union> new))"
proof -
  from extend_source_file_success [OF assms]
  obtain req_file urls new resolved clabels rlabels index_url1 extras1 header where
    l: "RequirementFile env
          (str_path (build_filename working_directory tag_name extension ''src'')) fs =
        Inr req_file"
    and b: "build_ireq_set env specifiers urls prereleases resolve_canonical_names
              (str_path (parent (Path working_directory))) resolve_versions = Inr new"
    and r: "resolve_ireqs env (requirements req_file \<union> new) prereleases True = Inr resolved"
    and w: "write_requirements env
              (str_path (build_filename working_directory tag_name extension ''src''))
              resolved header fs = (Inr (), fs')"
    by (elim exE conjE)
  have v: "(\<forall>r \<in> resolved. \<forall>r' \<in> resolved. fst r = fst r' \<longrightarrow> r = r')
             \<and> (\<forall>r \<in> resolved.
                   snd r = \<Inter> (snd ` {q \<in> requirements req_file \<union> new. fst q = fst r}))
             \<and> fst ` resolved = fst ` (requirements req_file \<union> new)"
    if "\<forall>reqs. resolve_ireqs env reqs prereleases True = Version_Intersector reqs"
  proof -
    from that r have "Version_Intersector (requirements req_file \<union> new) = Inr resolved"
      by simp
    from Version_Intersector_sound [OF this] show ?thesis by simp
  qed
  show ?thesis
    by (intro exI conjI impI; (rule l b r w | erule v [THEN conjunct1]
        | erule v [THEN conjunct2, THEN conjunct1] | erule v [THEN conjunct2, THEN conjunct2]))
qed

theorem extend_source_file_writes_intersection_witness:
  "fst (extend_source_file (example_env example_manifest) example_clock ''/work'' ''base''
     [''foo>=2,<4''] ''.in'' None None None False True True example_fs) = Inr ()
   \<and> Version_Intersector (requirements example_manifest \<union> {(''foo'', {2..<4})}) =
       Inr {(''foo'', {2..<3}), (''bar'', {5..<6})}
   \<and> (\<exists>req_file urls new resolved header.
         RequirementFile (example_env example_manifest)
           (str_path (build_filename ''/work'' ''base'' ''.in'' ''src'')) example_fs = Inr req_file
       \<and> build_ireq_set (example_env example_manifest) [''foo>=2,<4''] urls False True
            (str_path (parent (Path ''/work''))) True = Inr new
       \<and> resolve_ireqs (example_env example_manifest) (requirements req_file \<union> new) False True =
            Inr resolved
       \<and> write_requirements (example_env example_manifest)
            (str_path (build_filename ''/work'' ''base'' ''.in'' ''src'')) resolved header
            example_fs =
          (Inr (), snd (extend_source_file (example_env example_manifest) example_clock ''/work''
             ''base'' [''foo>=2,<4''] ''.in'' None None None False True True example_fs))
       \<and> (\<forall>r \<in> resolved. \<forall>r' \<in> resolved. fst r = fst r' \<longrightarrow> r = r')
       \<and> (\<forall>r \<in> resolved.
             snd r = \<Inter> (snd ` {q \<in> requirements req_file \<union> new. fst q = fst r}))
       \<and> fst ` resolved = fst ` (requirements req_file \<union> new))"
proof -
  have s: "fst (extend_source_file (example_env example_manifest) example_clock ''/work''
     ''base'' [''foo>=2,<4''] ''.in'' None None None False True True example_fs) = Inr ()"
    by code_simp
  have v: "Version_Intersector (requirements example_manifest \<union> {(''foo'', {2..<4})}) =
       Inr {(''foo'', {2..<3}), (''bar'', {5..<6})}"
    by code_simp
  have i: "\<forall>reqs. resolve_ireqs (example_env example_manifest) reqs False True =
             Version_Intersector reqs"
    by (simp add: example_env_def)
  have "extend_source_file (example_env example_manifest) example_clock ''/work''
     ''base'' [''foo>=2,<4''] ''.in'' None None None False True True example_fs =
     (Inr (), snd (extend_source_file (example_env example_manifest) example_clock ''/work''
             ''base'' [''foo>=2,<4''] ''.in'' None None None False True True example_fs))"
    using s prod.collapse [of "extend_source_file (example_env example_manifest) example_clock
      ''/work'' ''base'' [''foo>=2,<4''] ''.in'' None None None False True True example_fs"]
    by (simp only:)
  from extend_source_file_writes_intersection [OF this]
  obtain req_file urls new resolved header where
    f: "RequirementFile (example_env example_manifest)
           (str_path (build_filename ''/work'' ''base'' ''.in'' ''src'')) example_fs = Inr req_file"
       "build_ireq_set (example_env example_manifest) [''foo>=2,<4''] urls False True
            (str_path (parent (Path ''/work''))) True = Inr new"
       "resolve_ireqs (example_env example_manifest) (requirements req_file \<union> new) False True =
            Inr resolved"
       "write_requirements (example_env example_manifest)
            (str_path (build_filename ''/work'' ''base'' ''.in'' ''src'')) resolved header
            example_fs =
          (Inr (), snd (extend_source_file (example_env example_manifest) example_clock ''/work''
             ''base'' [''foo>=2,<4''] ''.in'' None None None False True True example_fs))"
    and g: "(\<forall>reqs. resolve_ireqs (example_env example_manifest) reqs False True =
               Version_Intersector reqs) \<longrightarrow>
       (\<forall>r \<in> resolved. \<forall>r' \<in> resolved. fst r = fst r' \<longrightarrow> r = r')
       \<and> (\<forall>r \<in> resolved.
             snd r = \<Inter> (snd ` {q \<in> requirements req_file \<union> new. fst q = fst r}))
       \<and> fst ` resolved = fst ` (requirements req_file \<union> new)"
    by (elim exE conjE)
  from g i have "(\<forall>r \<in> resolved. \<forall>r' \<in> resolved. fst r = fst r' \<longrightarrow> r = r')
       \<and> (\<forall>r \<in> resolved.
             snd r = \<Inter> (snd ` {q \<in> requirements req_file \<union> new. fst q = fst r}))
       \<and> fst ` resolved = fst ` (requirements req_file \<union> new)"
    by (rule mp)
  with f have "\<exists>req_file urls new resolved header.
         RequirementFile (example_env example_manifest)
           (str_path (build_filename ''/work'' ''base'' ''.in'' ''src'')) example_fs = Inr req_file
       \<and> build_ireq_set (example_env example_manifest) [''foo>=2,<4''] urls False True
            (str_path (parent (Path ''/work''))) True = Inr new
       \<and> resolve_ireqs (example_env example_manifest) (requirements req_file \<union> new) False True =
            Inr resolved
       \<and> write_requirements (example_env example_manifest)
            (str_path (build_filename ''/work'' ''base'' ''.in'' ''src'')) resolved header
            example_fs =
          (Inr (), snd (extend_source_file (example_env example_manifest) example_clock ''/work''
             ''base'' [''foo>=2,<4''] ''.in'' None None None False True True example_fs))
       \<and> (\<forall>r \<in> resolved. \<forall>r' \<in> resolved. fst r = fst r' \<longrightarrow> r = r')
       \<and> (\<forall>r \<in> resolved.
             snd r = \<Inter> (snd ` {q \<in> requirements req_file \<union> new. fst q = fst r}))
       \<and> fst ` resolved = fst ` (requirements req_file \<union> new)"
    by (intro exI conjI) (erule conjunct1 conjunct2 | assumption | (drule conjunct2, erule conjunct1) | (drule conjunct2, erule conjunct2))+
  with s v show ?thesis by (intro conjI)
qed

end
